theory Spec2Isabelle
  imports Main "HOL-Library.Char_ord" "HOL-Library.List_Lexorder"
begin

section \<open>Cells, series and data frames\<close>

text \<open>
  The script \<^verbatim>\<open>s1.py\<close> reads two sheets into pandas data frames and works on whole
  columns. A cell is a text, a number or the missing-value marker (NaN, \<^verbatim>\<open>pd.NA\<close>).
  A number cell holds an integer of fewer than sixteen digits; numbers with a fractional
  part are outside the model. Texts are ASCII strings. A series is the list of the cells
  of one column in row order; a frame is its row count together with its columns in their
  order.
\<close>

datatype val = Str string | Num int | NA

type_synonym series = "val list"

record frame =
  nrows :: nat
  cols :: "(string \<times> series) list"

datatype error =
    SystemExit string
  | KeyError string
  | AttributeError string
  | NameError string

definition columns :: "frame \<Rightarrow> string list" where
  "columns df = map fst (cols df)"

text \<open>\<^verbatim>\<open>df[c]\<close>: the column named \<open>c\<close>, a KeyError when there is none.\<close>

definition getitem :: "frame \<Rightarrow> string \<Rightarrow> error + series" where
  "getitem df c = (case map_of (cols df) c of None \<Rightarrow> Inl (KeyError c) | Some xs \<Rightarrow> Inr xs)"

text \<open>
  \<^verbatim>\<open>df[c] = xs\<close>: an existing column is replaced where it stands, a new one is appended
  after the last column.
\<close>

fun set_col :: "string \<Rightarrow> series \<Rightarrow> (string \<times> series) list \<Rightarrow> (string \<times> series) list" where
  "set_col c xs [] = [(c, xs)]"
| "set_col c xs ((n, ys) # rest) =
     (if n = c then (n, xs) # rest else (n, ys) # set_col c xs rest)"

definition setitem :: "frame \<Rightarrow> string \<Rightarrow> series \<Rightarrow> frame" where
  "setitem df c xs = df\<lparr>cols := set_col c xs (cols df)\<rparr>"

section \<open>Text operations\<close>

text \<open>
  \<^verbatim>\<open>str.strip()\<close> removes the leading and trailing characters for which
  \<^verbatim>\<open>str.isspace\<close> holds; on ASCII these are the codes 9 to 13 and 28 to 32.
  \<^verbatim>\<open>str.casefold()\<close> maps the ASCII capitals to the small letters and leaves every
  other ASCII character as it is.
\<close>

definition isspace :: "char \<Rightarrow> bool" where
  "isspace c \<longleftrightarrow>
     (let n = (of_char c :: nat) in (9 \<le> n \<and> n \<le> 13) \<or> (28 \<le> n \<and> n \<le> 32))"

definition strip :: "string \<Rightarrow> string" where
  "strip s = rev (dropWhile isspace (rev (dropWhile isspace s)))"

definition casefold_char :: "char \<Rightarrow> char" where
  "casefold_char c =
     (let n = (of_char c :: nat) in if 65 \<le> n \<and> n \<le> 90 then char_of (n + 32) else c)"

definition casefold :: "string \<Rightarrow> string" where
  "casefold s = map casefold_char s"

text \<open>\<^verbatim>\<open>str(n)\<close> of an integer: its decimal digits, with a minus sign when negative.\<close>

definition digit_char :: "nat \<Rightarrow> char" where
  "digit_char d = char_of (48 + d)"

fun digits :: "nat \<Rightarrow> string" where
  "digits n = (if n < 10 then [digit_char n] else digits (n div 10) @ [digit_char (n mod 10)])"

declare digits.simps [simp del]

definition str_int :: "int \<Rightarrow> string" where
  "str_int i = (if i < 0 then CHR ''-'' # digits (nat (- i)) else digits (nat i))"

text \<open>
  The dtype that \<^verbatim>\<open>read_excel\<close> gives a column: a column with a text in it holds
  its cells as they are (object), a column of numbers with a missing cell holds floats,
  and a column of numbers alone holds integers.
\<close>

datatype dtype = Int64 | Float64 | Object

fun is_text :: "val \<Rightarrow> bool" where
  "is_text (Str s) = True"
| "is_text (Num i) = False"
| "is_text NA = False"

definition dtype_of :: "series \<Rightarrow> dtype" where
  "dtype_of s =
     (if list_ex is_text s then Object
      else if list_ex (\<lambda>v. v = NA) s then Float64
      else Int64)"

text \<open>
  The script pins no pandas version, and the versions differ in what
  \<^verbatim>\<open>Series.astype(str)\<close> makes of a missing cell: before version 3 it becomes the
  three letters \<^verbatim>\<open>nan\<close>, from version 3 on it stays missing.
\<close>

datatype pandas = Pandas_2 | Pandas_3

text \<open>
  \<^verbatim>\<open>Series.astype(str)\<close>, cell by cell, with \<open>None\<close> for a cell that stays missing:
  a text stays, and a number is printed, with a trailing \<^verbatim>\<open>.0\<close> in a float column.
\<close>

fun astype_str :: "pandas \<Rightarrow> dtype \<Rightarrow> val \<Rightarrow> string option" where
  "astype_str p d (Str s) = Some s"
| "astype_str p d (Num i) = Some (if d = Float64 then str_int i @ ''.0'' else str_int i)"
| "astype_str Pandas_2 d NA = Some ''nan''"
| "astype_str Pandas_3 d NA = None"

text \<open>
  \<^verbatim>\<open>normalize_key\<close> (lines 15 to 17), on one cell and on a series. The string methods
  leave a missing cell missing.
\<close>

definition normalize_cell :: "pandas \<Rightarrow> dtype \<Rightarrow> val \<Rightarrow> string option" where
  "normalize_cell p d v = map_option (\<lambda>s. casefold (strip s)) (astype_str p d v)"

definition normalize_key :: "pandas \<Rightarrow> series \<Rightarrow> string option list" where
  "normalize_key p s = map (normalize_cell p (dtype_of s)) s"

text \<open>A normalized key as a cell of a frame.\<close>

fun key_cell :: "string option \<Rightarrow> val" where
  "key_cell None = NA"
| "key_cell (Some k) = Str k"

section \<open>Grouping and mapping\<close>

text \<open>
  \<^verbatim>\<open>groupby(k)[c].first()\<close>: the rows whose group label is missing are dropped; there
  is one entry for each distinct label that is left, the labels in sorted order, holding
  the first cell of the group that is not missing, and the missing-value marker when the
  group has none.
\<close>

fun first_valid :: "series \<Rightarrow> val" where
  "first_valid [] = NA"
| "first_valid (v # vs) = (if v = NA then first_valid vs else v)"

fun present :: "string option list \<Rightarrow> string list" where
  "present [] = []"
| "present (None # ks) = present ks"
| "present (Some k # ks) = k # present ks"

definition group_cells :: "string option list \<Rightarrow> series \<Rightarrow> string \<Rightarrow> series" where
  "group_cells ks vs k = map snd (filter (\<lambda>p. fst p = Some k) (zip ks vs))"

definition groupby_first :: "string option list \<Rightarrow> series \<Rightarrow> (string \<times> val) list" where
  "groupby_first ks vs =
     map (\<lambda>k. (k, first_valid (group_cells ks vs k))) (sort (remdups (present ks)))"

text \<open>
  \<^verbatim>\<open>Series.map(mapping)\<close>: each label is looked up in the index of \<open>mapping\<close>; a label
  that is not there, and a missing label, give the missing-value marker.
\<close>

definition lookup :: "(string \<times> val) list \<Rightarrow> string \<Rightarrow> val" where
  "lookup m k = (case map_of m k of None \<Rightarrow> NA | Some v \<Rightarrow> v)"

fun lookup_key :: "(string \<times> val) list \<Rightarrow> string option \<Rightarrow> val" where
  "lookup_key m None = NA"
| "lookup_key m (Some k) = lookup m k"

definition map_series :: "string option list \<Rightarrow> (string \<times> val) list \<Rightarrow> series" where
  "map_series ks m = map (lookup_key m) ks"

section \<open>The command line\<close>

text \<open>
  The namespace that \<^verbatim>\<open>parse_args\<close> returns has one attribute for each
  \<^verbatim>\<open>add_argument\<close> call (lines 24 to 38), named after the option with every dash
  inside the name turned into an underscore. A sheet is the integer 0 by default and a
  text when given. The field \<open>output_path\<close> is the attribute \<^verbatim>\<open>output\<close>.
\<close>

datatype argval = AStr string | AInt int | ABool bool

record args =
  file_a :: string
  sheet_a :: argval
  key_a :: string
  source_a :: string
  file_b :: string
  sheet_b :: argval
  key_b :: string
  target_b :: string
  output_path :: string
  only_fill_empty :: bool
  copy_all_sheets :: bool

definition namespace :: "args \<Rightarrow> (string \<times> argval) list" where
  "namespace a =
     [(''file_a'', AStr (file_a a)), (''sheet_a'', sheet_a a),
      (''key_a'', AStr (key_a a)), (''source_a'', AStr (source_a a)),
      (''file_b'', AStr (file_b a)), (''sheet_b'', sheet_b a),
      (''key_b'', AStr (key_b a)), (''target_b'', AStr (target_b a)),
      (''output'', AStr (output_path a)),
      (''only_fill_empty'', ABool (only_fill_empty a)),
      (''copy_all_sheets'', ABool (copy_all_sheets a))]"

text \<open>\<^verbatim>\<open>args.name\<close>: the attribute, an AttributeError when the namespace has none.\<close>

definition getattr :: "args \<Rightarrow> string \<Rightarrow> error + argval" where
  "getattr a n =
     (case map_of (namespace a) n of
        None \<Rightarrow> Inl (AttributeError n)
      | Some v \<Rightarrow> Inr v)"

section \<open>The merge\<close>

text \<open>The column validation of lines 58 to 63: the first missing column ends the run.\<close>

definition not_found :: "string \<Rightarrow> string \<Rightarrow> string" where
  "not_found col label =
     ''ERROR: Column '' @ [CHR 0x27] @ col @ [CHR 0x27] @ '' (from '' @ label @
     '') not found in its sheet.''"

fun validate :: "(string \<times> string \<times> frame) list \<Rightarrow> error option" where
  "validate [] = None"
| "validate ((col, label, df) # rest) =
     (if col \<notin> set (columns df) then Some (SystemExit (not_found col label))
      else validate rest)"

text \<open>
  Lines 66 to 68: the normalized keys are stored in the source frame as the column
  \<^verbatim>\<open>_key_norm_\<close>, and the source column of that frame is grouped by them. The result
  is the index and the source frame as it then stands.
\<close>

definition build_index ::
    "pandas \<Rightarrow> args \<Rightarrow> frame \<Rightarrow> (error + (string \<times> val) list) \<times> frame" where
  "build_index p a A =
     (case getitem A (key_a a) of
        Inl e \<Rightarrow> (Inl e, A)
      | Inr ka \<Rightarrow>
          (let kn = normalize_key p ka;
               A1 = setitem A ''_key_norm_'' (map key_cell kn)
           in case getitem A1 (source_a a) of
                Inl e \<Rightarrow> (Inl e, A1)
              | Inr sa \<Rightarrow> (Inr (groupby_first kn sa), A1)))"

text \<open>Lines 71 and 72: the looked-up cell for each destination row.\<close>

definition match_keys ::
    "pandas \<Rightarrow> args \<Rightarrow> (string \<times> val) list \<Rightarrow> frame \<Rightarrow> error + series" where
  "match_keys p a m B =
     (case getitem B (key_b a) of
        Inl e \<Rightarrow> Inl e
      | Inr kb \<Rightarrow> Inr (map_series (normalize_key p kb) m))"

text \<open>Lines 76 and 77: a missing target column is created, every cell missing.\<close>

definition ensure_target :: "args \<Rightarrow> frame \<Rightarrow> frame" where
  "ensure_target a B =
     (if target_b a \<notin> set (columns B)
      then setitem B (target_b a) (replicate (nrows B) NA)
      else B)"

text \<open>
  Line 79 reads \<^verbatim>\<open>if args.only-fill-empty:\<close>. Python parses the condition as the
  subtraction \<^verbatim>\<open>(args.only - fill) - empty\<close> and evaluates \<^verbatim>\<open>args.only\<close> first.
  Were there such an attribute, the name \<^verbatim>\<open>fill\<close> comes next, which is bound nowhere
  in the module or in \<^verbatim>\<open>main\<close>.
\<close>

definition fill_policy_test :: "args \<Rightarrow> error + bool" where
  "fill_policy_test a =
     (case getattr a ''only'' of
        Inl e \<Rightarrow> Inl e
      | Inr _ \<Rightarrow> Inl (NameError ''fill''))"

text \<open>
  Line 81: a target cell is blank when it is missing or when its text is empty after
  stripping. Line 82 assigns the looked-up cell to the blank rows only; line 85 assigns
  the looked-up series to the whole column.
\<close>

definition is_blank :: "pandas \<Rightarrow> dtype \<Rightarrow> val \<Rightarrow> bool" where
  "is_blank p d v \<longleftrightarrow> v = NA \<or> map_option strip (astype_str p d v) = Some []"

definition fill_blank :: "pandas \<Rightarrow> series \<Rightarrow> series \<Rightarrow> series" where
  "fill_blank p old mv =
     map (\<lambda>(v, m). if is_blank p (dtype_of old) v then m else v) (zip old mv)"

definition apply_policy ::
    "pandas \<Rightarrow> bool \<Rightarrow> args \<Rightarrow> series \<Rightarrow> frame \<Rightarrow> error + frame" where
  "apply_policy p only a mv B =
     (if only then
        (case getitem B (target_b a) of
           Inl e \<Rightarrow> Inl e
         | Inr old \<Rightarrow> Inr (setitem B (target_b a) (fill_blank p old mv)))
      else Inr (setitem B (target_b a) mv))"

text \<open>
  What a completed run hands on: the frame that is written, and the two counts of the
  report of lines 88 to 90.
\<close>

record outcome =
  written :: frame
  matches :: nat
  total :: nat

definition notna :: "val \<Rightarrow> bool" where
  "notna v \<longleftrightarrow> v \<noteq> NA"

text \<open>
  \<^verbatim>\<open>main\<close> from line 58 on, given the two frames as read. The result is how the run
  ends, together with the source frame and the destination frame as they stand in memory
  at that moment.
\<close>

definition main ::
    "pandas \<Rightarrow> args \<Rightarrow> frame \<Rightarrow> frame \<Rightarrow> (error + outcome) \<times> frame \<times> frame" where
  "main p a A B =
     (case validate [(key_a a, ''key-a'', A), (source_a a, ''source-a'', A),
                     (key_b a, ''key-b'', B)] of
        Some e \<Rightarrow> (Inl e, A, B)
      | None \<Rightarrow>
          (case build_index p a A of
             (Inl e, A1) \<Rightarrow> (Inl e, A1, B)
           | (Inr mapping, A1) \<Rightarrow>
               (case match_keys p a mapping B of
                  Inl e \<Rightarrow> (Inl e, A1, B)
                | Inr matched_values \<Rightarrow>
                    (let B1 = ensure_target a B in
                     case fill_policy_test a of
                       Inl e \<Rightarrow> (Inl e, A1, B1)
                     | Inr only \<Rightarrow>
                         (case apply_policy p only a matched_values B1 of
                            Inl e \<Rightarrow> (Inl e, A1, B1)
                          | Inr B2 \<Rightarrow>
                              (Inr \<lparr>written = B2,
                                    matches = length (filter notna matched_values),
                                    total = nrows B2\<rparr>, A1, B2))))))"

section \<open>The index as the specification words it\<close>

text \<open>
  The specification describes the index by a scan of the source rows: a key is given the
  source cell of the first row, in row order, whose key cell normalizes to that key and
  whose source cell is not missing. A key with no such row has no entry, which a lookup
  reports as missing. The scan is given the normalized keys of the rows and their source
  cells.
\<close>

definition spec_first_nonnull :: "string option list \<Rightarrow> series \<Rightarrow> string \<Rightarrow> val" where
  "spec_first_nonnull kn sa k =
     (case find (\<lambda>(key, v). key = Some k \<and> v \<noteq> NA) (zip kn sa) of
        None \<Rightarrow> NA
      | Some (key, v) \<Rightarrow> v)"

section \<open>Concrete runs\<close>

text \<open>
  The scenario of the specification: the source sheet has the keys Alice, bob (padded
  with blanks) and CARL with the scores 10, 20 and 30; the destination sheet has the keys
  alice, Bob and dave, and its score column holds only a 5 in the second row.
\<close>

definition scenario_args :: args where
  "scenario_args =
     \<lparr>file_a = ''a.xlsx'', sheet_a = AInt 0, key_a = ''Name'', source_a = ''Score'',
      file_b = ''b.xlsx'', sheet_b = AInt 0, key_b = ''Name'', target_b = ''Score'',
      output_path = ''out.xlsx'', only_fill_empty = True, copy_all_sheets = False\<rparr>"

definition overwrite_args :: args where
  "overwrite_args = scenario_args\<lparr>only_fill_empty := False\<rparr>"

definition scenario_source :: frame where
  "scenario_source =
     \<lparr>nrows = 3,
      cols = [(''Name'', [Str ''Alice'', Str '' bob '', Str ''CARL'']),
              (''Score'', [Num 10, Num 20, Num 30])]\<rparr>"

definition scenario_dest :: frame where
  "scenario_dest =
     \<lparr>nrows = 3,
      cols = [(''Name'', [Str ''alice'', Str ''Bob'', Str ''dave'']),
              (''Score'', [NA, Num 5, NA])]\<rparr>"

text \<open>The same destination with every score cell filled in, and with no score column.\<close>

definition populated_dest :: frame where
  "populated_dest =
     \<lparr>nrows = 3,
      cols = [(''Name'', [Str ''alice'', Str ''Bob'', Str ''dave'']),
              (''Score'', [Str ''old'', Num 5, Str ''keep''])]\<rparr>"

definition bare_dest :: frame where
  "bare_dest =
     \<lparr>nrows = 3, cols = [(''Name'', [Str ''alice'', Str ''Bob'', Str ''dave''])]\<rparr>"

text \<open>
  A source sheet that has a column of its own called \<^verbatim>\<open>_key_norm_\<close>, selected as the
  column to copy from.
\<close>

definition clash_args :: args where
  "clash_args =
     \<lparr>file_a = ''a.xlsx'', sheet_a = AInt 0, key_a = ''K'', source_a = ''_key_norm_'',
      file_b = ''b.xlsx'', sheet_b = AInt 0, key_b = ''K'', target_b = ''T'',
      output_path = ''out.xlsx'', only_fill_empty = False, copy_all_sheets = False\<rparr>"

definition clash_source :: frame where
  "clash_source =
     \<lparr>nrows = 1, cols = [(''K'', [Str ''A'']), (''_key_norm_'', [Str ''Z''])]\<rparr>"

text \<open>Sheets of one row, for a single source key and a single destination key.\<close>

definition one_row_source :: "val \<Rightarrow> val \<Rightarrow> frame" where
  "one_row_source k v = \<lparr>nrows = 1, cols = [(''Name'', [k]), (''Score'', [v])]\<rparr>"

definition one_row_dest :: "val \<Rightarrow> frame" where
  "one_row_dest k = \<lparr>nrows = 1, cols = [(''Name'', [k])]\<rparr>"

section \<open>Frames: reading and writing columns\<close>

lemma map_of_set_col: "map_of (set_col c xs al) = (map_of al)(c \<mapsto> xs)"
  by (induction al) (auto simp: fun_eq_iff)

lemma keys_set_col:
  "map fst (set_col c xs al) = (if c \<in> set (map fst al) then map fst al else map fst al @ [c])"
  by (induction al) force+

lemma getitem_setitem_same: "getitem (setitem df c xs) c = Inr xs"
  by (simp add: getitem_def setitem_def map_of_set_col)

lemma getitem_setitem_other: "c' \<noteq> c \<Longrightarrow> getitem (setitem df c xs) c' = getitem df c'"
  by (simp add: getitem_def setitem_def map_of_set_col)

lemma nrows_setitem: "nrows (setitem df c xs) = nrows df"
  by (simp add: setitem_def)

lemma columns_setitem:
  "columns (setitem df c xs) = (if c \<in> set (columns df) then columns df else columns df @ [c])"
  by (simp add: columns_def setitem_def keys_set_col)

lemma other_columns_setitem:
  "filter (\<lambda>n. n \<noteq> c) (columns (setitem df c xs)) = filter (\<lambda>n. n \<noteq> c) (columns df)"
  by (simp add: columns_setitem)

lemma getitem_Inr_iff: "(\<exists>xs. getitem df c = Inr xs) \<longleftrightarrow> c \<in> set (columns df)"
  by (auto simp: getitem_def columns_def dom_map_of_conv_image_fst [symmetric]
      split: option.splits)

section \<open>How a run ends\<close>

text \<open>
  The namespace has no attribute \<^verbatim>\<open>only\<close>, so the condition of line 79 never yields
  a value: a run that passes the column checks ends there.
\<close>

lemma fill_policy_test_fails: "fill_policy_test a = Inl (AttributeError ''only'')"
  by (simp add: fill_policy_test_def getattr_def namespace_def)

lemma validate_three:
  "validate [(c1, l1, d1), (c2, l2, d2), (c3, l3, d3)] = None \<longleftrightarrow>
     c1 \<in> set (columns d1) \<and> c2 \<in> set (columns d2) \<and> c3 \<in> set (columns d3)"
  by simp

lemma build_index_valid:
  assumes "getitem A (key_a a) = Inr ka" and "source_a a \<in> set (columns A)"
  shows "\<exists>m. build_index p a A =
           (Inr m, setitem A ''_key_norm_'' (map key_cell (normalize_key p ka)))"
proof -
  let ?A1 = "setitem A ''_key_norm_'' (map key_cell (normalize_key p ka))"
  from assms(2) have "source_a a \<in> set (columns ?A1)"
    by (simp add: columns_setitem)
  then obtain sa where "getitem ?A1 (source_a a) = Inr sa"
    using getitem_Inr_iff by blast
  with assms(1) show ?thesis
    by (simp add: build_index_def Let_def)
qed

lemma main_valid:
  assumes "getitem A (key_a a) = Inr ka" and "source_a a \<in> set (columns A)"
    and "key_b a \<in> set (columns B)"
  shows "main p a A B =
     (Inl (AttributeError ''only''),
      setitem A ''_key_norm_'' (map key_cell (normalize_key p ka)), ensure_target a B)"
proof -
  from assms(1) have ka: "key_a a \<in> set (columns A)"
    using getitem_Inr_iff by blast
  obtain m where m: "build_index p a A =
      (Inr m, setitem A ''_key_norm_'' (map key_cell (normalize_key p ka)))"
    using build_index_valid [OF assms(1,2)] by blast
  obtain kb where kb: "getitem B (key_b a) = Inr kb"
    using assms(3) getitem_Inr_iff by blast
  show ?thesis
    by (simp add: main_def ka assms(2,3) m match_keys_def kb fill_policy_test_fails Let_def)
qed

lemma main_invalid:
  assumes "key_a a \<notin> set (columns A) \<or> source_a a \<notin> set (columns A)
    \<or> key_b a \<notin> set (columns B)"
  shows "\<exists>msg. main p a A B = (Inl (SystemExit msg), A, B)"
  using assms by (auto simp: main_def)

lemma main_cases:
  obtains (invalid) msg where "main p a A B = (Inl (SystemExit msg), A, B)"
  | (valid) ka where "getitem A (key_a a) = Inr ka"
      "main p a A B = (Inl (AttributeError ''only''),
         setitem A ''_key_norm_'' (map key_cell (normalize_key p ka)), ensure_target a B)"
proof (cases "key_a a \<in> set (columns A) \<and> source_a a \<in> set (columns A)
    \<and> key_b a \<in> set (columns B)")
  case True
  then obtain ka where "getitem A (key_a a) = Inr ka"
    using getitem_Inr_iff by blast
  with True show ?thesis
    using main_valid valid by blast
next
  case False
  then show ?thesis
    using main_invalid invalid by blast
qed

lemma main_never_completes: "\<exists>e. fst (main p a A B) = Inl e"
  by (rule main_cases [of p a A B]) auto

section \<open>The destination frame\<close>

lemma getitem_ensure_target_other:
  "c \<noteq> target_b a \<Longrightarrow> getitem (ensure_target a B) c = getitem B c"
  by (simp add: ensure_target_def getitem_setitem_other)

lemma nrows_ensure_target: "nrows (ensure_target a B) = nrows B"
  by (simp add: ensure_target_def nrows_setitem)

lemma other_columns_ensure_target:
  "filter (\<lambda>n. n \<noteq> target_b a) (columns (ensure_target a B)) =
   filter (\<lambda>n. n \<noteq> target_b a) (columns B)"
  by (simp add: ensure_target_def other_columns_setitem)

text \<open>What a run, which never completes, leaves of the destination frame in memory.\<close>

lemma run_leaves_destination:
  "snd (snd (main p a A B)) = B \<or> snd (snd (main p a A B)) = ensure_target a B"
  by (rule main_cases [of p a A B]) auto

text \<open>
  The two assignments of lines 82 and 85, taken by themselves: the first keeps every cell
  that is not blank and gives the blank ones the looked-up cell, the second replaces the
  whole column by the looked-up series; both leave the row count and the other columns
  as they are.
\<close>

lemma apply_policy_frame:
  assumes "apply_policy p only a mv B = Inr B'"
  shows "nrows B' = nrows B"
    and "c \<noteq> target_b a \<Longrightarrow> getitem B' c = getitem B c"
    and "filter (\<lambda>n. n \<noteq> target_b a) (columns B') = filter (\<lambda>n. n \<noteq> target_b a) (columns B)"
  using assms
  by (auto simp: apply_policy_def nrows_setitem getitem_setitem_other other_columns_setitem
      split: if_splits sum.splits)

lemma fill_blank_nth:
  assumes "length mv = length old" and "i < length old"
  shows "fill_blank p old mv ! i =
     (if is_blank p (dtype_of old) (old ! i) then mv ! i else old ! i)"
  using assms by (simp add: fill_blank_def)

lemma apply_policy_fill:
  assumes "getitem B (target_b a) = Inr old"
  shows "apply_policy p True a mv B = Inr (setitem B (target_b a) (fill_blank p old mv))"
  using assms by (simp add: apply_policy_def)

lemma apply_policy_overwrite:
  "apply_policy p False a mv B = Inr (setitem B (target_b a) mv)"
  by (simp add: apply_policy_def)

section \<open>The index\<close>

lemma set_present: "k \<in> set (present ks) \<longleftrightarrow> Some k \<in> set ks"
  by (induction ks rule: present.induct) auto

lemma lookup_groupby_first: "lookup (groupby_first ks vs) k = first_valid (group_cells ks vs k)"
proof (cases "Some k \<in> set ks")
  case True
  then show ?thesis
    by (simp add: lookup_def groupby_first_def map_of_map_restrict restrict_map_def
        set_present)
next
  case False
  then have "filter (\<lambda>p. fst p = Some k) (zip ks vs) = []"
    by (auto simp: filter_empty_conv dest: set_zip_leftD)
  with False show ?thesis
    by (simp add: lookup_def groupby_first_def map_of_map_restrict restrict_map_def
        group_cells_def set_present)
qed

lemma group_first_spec:
  "first_valid (group_cells kn sa k) = spec_first_nonnull kn sa k"
proof (induction kn arbitrary: sa)
  case Nil
  then show ?case
    by (simp add: group_cells_def spec_first_nonnull_def)
next
  case (Cons x kn)
  show ?case
  proof (cases sa)
    case Nil
    then show ?thesis
      by (simp add: group_cells_def spec_first_nonnull_def)
  next
    case (Cons v sa')
    with Cons.IH [of sa'] show ?thesis
      by (simp add: group_cells_def spec_first_nonnull_def)
  qed
qed

lemma find_append_list:
  "find P (xs @ ys) = (case find P xs of None \<Rightarrow> find P ys | Some x \<Rightarrow> Some x)"
  by (induction xs) simp_all

lemma spec_first_nonnull_append:
  assumes "length kn = length sa" and "spec_first_nonnull kn sa k \<noteq> NA"
  shows "spec_first_nonnull (kn @ kn') (sa @ sa') k = spec_first_nonnull kn sa k"
  using assms
  by (auto simp: spec_first_nonnull_def find_append_list split: option.splits)

text \<open>
  Whenever the column to copy from is not the scratch column, the index that line 68
  builds is the one the specification describes, and rows added below never change an
  entry that is already there.
\<close>

lemma index_first_nonnull:
  assumes "getitem A (key_a a) = Inr ka" and "getitem A (source_a a) = Inr sa"
    and "source_a a \<noteq> ''_key_norm_''"
  shows "fst (build_index p a A) = Inr (groupby_first (normalize_key p ka) sa)"
    and "lookup (groupby_first (normalize_key p ka) sa) k =
         spec_first_nonnull (normalize_key p ka) sa k"
  using assms
  by (simp_all add: build_index_def Let_def getitem_setitem_other lookup_groupby_first
      group_first_spec)

lemma index_stable_under_later_rows:
  assumes "length kn = length sa"
    and "lookup (groupby_first kn sa) k \<noteq> NA"
  shows "lookup (groupby_first (kn @ kn') (sa @ sa')) k = lookup (groupby_first kn sa) k"
  using assms
  by (simp add: lookup_groupby_first group_first_spec spec_first_nonnull_append)

section \<open>Normalized keys\<close>

lemma casefold_n_not_space: "casefold_char c = CHR ''n'' \<Longrightarrow> \<not> isspace c"
  by (auto simp: isspace_def casefold_char_def Let_def split: if_splits)

lemma dropWhile_pad:
  assumes "list_all P l" and "t \<noteq> []" and "\<not> P (hd t)"
  shows "dropWhile P (l @ t @ r) = t @ r"
proof -
  from assms(1) have "dropWhile P (l @ t @ r) = dropWhile P (t @ r)"
    by (simp add: dropWhile_append2 list_all_iff)
  also from assms(2,3) have "\<dots> = t @ r"
    by (cases t) simp_all
  finally show ?thesis .
qed

lemma strip_pad:
  assumes "list_all isspace l" and "list_all isspace r"
    and "t \<noteq> []" and "\<not> isspace (hd t)" and "\<not> isspace (last t)"
  shows "strip (l @ t @ r) = t"
proof -
  have "dropWhile isspace (l @ t @ r) = t @ r"
    using assms(1,3,4) by (rule dropWhile_pad)
  moreover have "dropWhile isspace (rev r @ rev t @ []) = rev t @ []"
    using assms(2,3,5) by (intro dropWhile_pad) (simp_all add: hd_rev list_all_iff)
  ultimately show ?thesis
    by (simp add: strip_def)
qed

lemma casefold_nan_shape:
  assumes "casefold t = ''nan''"
  shows "t \<noteq> [] \<and> \<not> isspace (hd t) \<and> \<not> isspace (last t)"
proof -
  from assms obtain c1 c2 c3 where t: "t = [c1, c2, c3]"
    and c: "casefold_char c1 = CHR ''n''" "casefold_char c3 = CHR ''n''"
    by (auto simp: casefold_def map_eq_Cons_conv)
  then show ?thesis
    by (simp add: casefold_n_not_space)
qed

lemma normalize_padded_nan:
  assumes "list_all isspace l" and "list_all isspace r" and "casefold t = ''nan''"
  shows "normalize_cell p d (Str (l @ t @ r)) = Some ''nan''"
  using assms casefold_nan_shape [OF assms(3)]
  by (simp add: normalize_cell_def strip_pad)

lemma casefold_nan: "casefold (strip ''nan'') = ''nan''"
  by code_simp

lemma normalize_missing_printed: "normalize_cell Pandas_2 d NA = Some ''nan''"
  by (simp add: normalize_cell_def casefold_nan)

lemma normalize_missing_kept: "normalize_cell Pandas_3 d NA = None"
  by (simp add: normalize_cell_def)



text \<open>The index and the match of a sheet of one row.\<close>

lemma dtype_of_single: "dtype_of [Str s] = Object" "dtype_of [NA] = Float64"
  by (simp_all add: dtype_of_def)

lemma one_row_index:
  "fst (build_index p scenario_args (one_row_source x v)) =
     Inr (groupby_first [normalize_cell p (dtype_of [x]) x] [v])"
  by (simp add: build_index_def one_row_source_def scenario_args_def getitem_def
      setitem_def normalize_key_def Let_def)

lemma one_row_match:
  "match_keys p scenario_args m (one_row_dest x) =
     Inr [lookup_key m (normalize_cell p (dtype_of [x]) x)]"
  by (simp add: match_keys_def one_row_dest_def scenario_args_def getitem_def
      normalize_key_def map_series_def)

lemma groupby_first_single:
  "groupby_first [Some k] [v] = [(k, v)]" "groupby_first [None] [v] = []"
  by (simp_all add: groupby_first_def group_cells_def)

section \<open>The source frame\<close>



section \<open>The claims\<close>

text \<open>
  C1. The index maps every normalized key to the source cell of the first source row
  whose key normalizes to it and whose source cell is not missing. The run below selects
  as source column a column of the sheet that is itself called \<^verbatim>\<open>_key_norm_\<close>: line 66
  replaces that column by the normalized keys before line 68 reads it, so the key
  \<^verbatim>\<open>a\<close> is given the cell \<^verbatim>\<open>a\<close>, while the first row of the sheet with that key
  holds \<^verbatim>\<open>Z\<close>. This is so under either pandas version.
\<close>

theorem index_reads_replaced_column:
  "getitem clash_source (key_a clash_args) = Inr [Str ''A'']
   \<and> getitem clash_source (source_a clash_args) = Inr [Str ''Z'']
   \<and> normalize_key p [Str ''A''] = [Some ''a'']
   \<and> spec_first_nonnull [Some ''a''] [Str ''Z''] ''a'' = Str ''Z''
   \<and> fst (build_index p clash_args clash_source) = Inr [(''a'', Str ''a'')]
   \<and> lookup [(''a'', Str ''a'')] ''a'' = Str ''a''"
  by (cases p; code_simp)

text \<open>
  C2. A run either applies the whole target column or fails at the column checks with the
  destination frame untouched. The run below passes the checks on a destination sheet
  that has no target column: it ends at line 79 with an AttributeError, after line 77 has
  added the target column to the destination frame and line 66 the scratch column to the
  source frame, and with no looked-up cell applied.
\<close>

theorem run_fails_after_the_checks:
  "main p scenario_args scenario_source bare_dest =
     (Inl (AttributeError ''only''),
      \<lparr>nrows = 3,
       cols = [(''Name'', [Str ''Alice'', Str '' bob '', Str ''CARL'']),
               (''Score'', [Num 10, Num 20, Num 30]),
               (''_key_norm_'', [Str ''alice'', Str ''bob'', Str ''carl''])]\<rparr>,
      \<lparr>nrows = 3,
       cols = [(''Name'', [Str ''alice'', Str ''Bob'', Str ''dave'']),
               (''Score'', [NA, NA, NA])]\<rparr>)"
  by (cases p; code_simp)

text \<open>
  C3. With the fill-empty-only option, a target cell that is not blank is kept and a
  blank one is given the looked-up cell. In the scenario the looked-up cells are 10, 20
  and missing, so the target column should become 10, 5, missing. The run ends at line 79
  instead, and the target column still reads missing, 5, missing.
\<close>

theorem fill_empty_only_never_applied:
  "fst (main p scenario_args scenario_source scenario_dest) = Inl (AttributeError ''only'')
   \<and> getitem (snd (snd (main p scenario_args scenario_source scenario_dest))) ''Score'' =
       Inr [NA, Num 5, NA]
   \<and> fill_blank p [NA, Num 5, NA] [Num 10, Num 20, NA] = [Num 10, Num 5, NA]"
  by (cases p; code_simp)

text \<open>
  C4. Without the option every target cell is set to the looked-up cell, a missing one
  for a key that the index does not have. On the filled-in destination the target column
  should become 10, 20, missing. The run ends at line 79 instead, and the target column
  keeps its three old cells.
\<close>

theorem overwrite_never_applied:
  "fst (main p overwrite_args scenario_source populated_dest) = Inl (AttributeError ''only'')
   \<and> getitem (snd (snd (main p overwrite_args scenario_source populated_dest))) ''Score'' =
       Inr [Str ''old'', Num 5, Str ''keep'']
   \<and> map_series (normalize_key p [Str ''alice'', Str ''Bob'', Str ''dave''])
        [(''alice'', Num 10), (''bob'', Num 20), (''carl'', Num 30)] =
       [Num 10, Num 20, NA]"
  by (cases p; code_simp)

text \<open>
  C5. The report counts the destination rows whose key looks up to a cell that is not
  missing, and all destination rows, whatever the fill policy. In the scenario these
  counts are 2 and 3. Under either policy the run ends before line 88, so no count is
  produced.
\<close>

theorem no_counts_reported:
  "(case fst (main p scenario_args scenario_source scenario_dest) of
      Inl e \<Rightarrow> None | Inr out \<Rightarrow> Some (matches out, total out)) = None
   \<and> (case fst (main p overwrite_args scenario_source scenario_dest) of
      Inl e \<Rightarrow> None | Inr out \<Rightarrow> Some (matches out, total out)) = None
   \<and> length (filter notna [Num 10, Num 20, NA]) = 2"
  by (cases p; code_simp)




text \<open>
  C8. Without the fill option, merging the same source a second time into the result of
  the first merge changes nothing. On the filled-in destination neither run produces a
  merged frame or a report: both end at line 79.
\<close>

theorem second_run_fails_alike:
  "fst (main p overwrite_args scenario_source populated_dest) = Inl (AttributeError ''only'')
   \<and> snd (snd (main p overwrite_args scenario_source populated_dest)) = populated_dest
   \<and> fst (main p overwrite_args scenario_source
            (snd (snd (main p overwrite_args scenario_source populated_dest)))) =
       Inl (AttributeError ''only'')"
  by (cases p; code_simp)




text \<open>
  C10. Whether a missing key cell and a key cell holding the text \<^verbatim>\<open>nan\<close> have the
  same normalized key depends on the pandas version. From version 3 on they do not: the
  missing cell has no key, so a destination row with the text \<^verbatim>\<open>nan\<close> as key is not
  given the source cell of a source row whose key is missing, nor the other way round.
\<close>

theorem nan_text_unmatched_when_missing_kept:
  "normalize_cell Pandas_3 Float64 NA = None
   \<and> normalize_cell Pandas_3 Object (Str ''nan'') = Some ''nan''
   \<and> fst (build_index Pandas_3 scenario_args (one_row_source NA (Num 7))) = Inr []
   \<and> match_keys Pandas_3 scenario_args [] (one_row_dest (Str ''nan'')) = Inr [NA]
   \<and> fst (build_index Pandas_3 scenario_args (one_row_source (Str ''nan'') (Num 7))) =
       Inr [(''nan'', Num 7)]
   \<and> match_keys Pandas_3 scenario_args [(''nan'', Num 7)] (one_row_dest NA) = Inr [NA]"
  by code_simp

text \<open>
  C10, as the code has it. Take a text that is \<^verbatim>\<open>nan\<close> in any mix of capitals and
  small letters, with white space around it. Before pandas 3 it has the same normalized
  key as a missing cell: a destination row with such a text as key is given the source
  cell of a source row whose key is missing, and a destination row whose key is missing
  is given the source cell of a source row with such a text as key. From pandas 3 on the
  text has the key \<^verbatim>\<open>nan\<close> and the missing cell has none, and neither row is given the
  source cell of the other.
\<close>

theorem nan_text_matches_blank:
  assumes "list_all isspace l" and "list_all isspace r" and "casefold t = ''nan''"
  shows "normalize_cell Pandas_2 Object (Str (l @ t @ r)) = normalize_cell Pandas_2 d NA
    \<and> fst (build_index Pandas_2 scenario_args (one_row_source NA v)) = Inr [(''nan'', v)]
    \<and> match_keys Pandas_2 scenario_args [(''nan'', v)] (one_row_dest (Str (l @ t @ r))) =
        Inr [v]
    \<and> fst (build_index Pandas_2 scenario_args (one_row_source (Str (l @ t @ r)) v)) =
        Inr [(''nan'', v)]
    \<and> match_keys Pandas_2 scenario_args [(''nan'', v)] (one_row_dest NA) = Inr [v]
    \<and> normalize_cell Pandas_3 Object (Str (l @ t @ r)) = Some ''nan''
    \<and> normalize_cell Pandas_3 d NA = None
    \<and> fst (build_index Pandas_3 scenario_args (one_row_source NA v)) = Inr []
    \<and> match_keys Pandas_3 scenario_args [] (one_row_dest (Str (l @ t @ r))) = Inr [NA]
    \<and> fst (build_index Pandas_3 scenario_args (one_row_source (Str (l @ t @ r)) v)) =
        Inr [(''nan'', v)]
    \<and> match_keys Pandas_3 scenario_args [(''nan'', v)] (one_row_dest NA) = Inr [NA]"
proof -
  have k: "normalize_cell p Object (Str (l @ t @ r)) = Some ''nan''" for p
    using assms by (rule normalize_padded_nan)
  show ?thesis
    by (simp add: k normalize_missing_printed normalize_missing_kept one_row_index
        one_row_match dtype_of_single groupby_first_single lookup_def)
qed

theorem nan_text_matches_blank_witness:
  "list_all isspace ''  '' \<and> list_all isspace [CHR 0x09] \<and> casefold ''NaN'' = ''nan''
   \<and> normalize_cell Pandas_2 Object (Str (''  '' @ ''NaN'' @ [CHR 0x09])) =
       normalize_cell Pandas_2 Float64 NA
   \<and> match_keys Pandas_2 scenario_args [(''nan'', Num 7)]
        (one_row_dest (Str (''  '' @ ''NaN'' @ [CHR 0x09]))) = Inr [Num 7]
   \<and> fst (build_index Pandas_2 scenario_args (one_row_source NA (Num 7))) =
       Inr [(''nan'', Num 7)]
   \<and> match_keys Pandas_3 scenario_args []
        (one_row_dest (Str (''  '' @ ''NaN'' @ [CHR 0x09]))) = Inr [NA]"
proof -
  have h: "list_all isspace ''  ''" "list_all isspace [CHR 0x09]" "casefold ''NaN'' = ''nan''"
    by code_simp+
  from nan_text_matches_blank [OF h, of Float64 "Num 7"] h show ?thesis by simp
qed

end
